theory Spec2Isabelle
  imports Main "HOL-Library.Char_ord" "HOL-Library.List_Lexorder" "HOL-Library.Multiset"
begin

section \<open>Python values, strings and errors\<close>

text \<open>
  The exporter is one Python module, \<^verbatim>\<open>main.py\<close>. Strings are lists of characters;
  the model covers ASCII text. Exceptions are values of \<open>py_error\<close>; a computation that
  may raise returns \<open>py_error + 'a\<close> with \<open>Inl\<close> for the exception.
\<close>

datatype py_error = ValueError | KeyError | TypeError | OSError | OtherException string

datatype pyval = PNone | PBool bool | PInt int | PStr string

text \<open>Truth value testing, as used by Python's \<^verbatim>\<open>or\<close>.\<close>

fun truthy :: "pyval \<Rightarrow> bool" where
  "truthy PNone = False"
| "truthy (PBool b) = b"
| "truthy (PInt i) = (i \<noteq> 0)"
| "truthy (PStr s) = (s \<noteq> [])"

definition digit_chars :: string where
  "digit_chars = ''0123456789''"

definition upper_chars :: string where
  "upper_chars = ''ABCDEFGHIJKLMNOPQRSTUVWXYZ''"

definition lower_chars :: string where
  "lower_chars = ''abcdefghijklmnopqrstuvwxyz''"

definition is_digit :: "char \<Rightarrow> bool" where
  "is_digit c = (c \<in> set digit_chars)"

definition digit_val :: "char \<Rightarrow> nat" where
  "digit_val c = of_char c - 48"

text \<open>\<^verbatim>\<open>str.lower()\<close> on one ASCII character.\<close>

definition to_lower :: "char \<Rightarrow> char" where
  "to_lower c = (case map_of (zip upper_chars lower_chars) c of Some l \<Rightarrow> l | None \<Rightarrow> c)"

definition lower :: "string \<Rightarrow> string" where
  "lower s = map to_lower s"

text \<open>
  The characters \<^verbatim>\<open>int()\<close> strips from both ends of its argument: codes 9 to 13 and
  28 to 32.
\<close>

definition py_isspace :: "char \<Rightarrow> bool" where
  "py_isspace c = (of_char c \<in> set [9, 10, 11, 12, 13, 28, 29, 30, 31, 32 :: nat])"

definition strip :: "string \<Rightarrow> string" where
  "strip s = rev (dropWhile py_isspace (rev (dropWhile py_isspace s)))"

text \<open>
  The digits of a decimal literal after its first digit: digits, with single underscores
  allowed between two digits.
\<close>

fun int_digits :: "nat \<Rightarrow> string \<Rightarrow> nat option" where
  "int_digits acc [] = Some acc"
| "int_digits acc [c] = (if is_digit c then Some (acc * 10 + digit_val c) else None)"
| "int_digits acc (c # d # cs) =
     (if is_digit c then int_digits (acc * 10 + digit_val c) (d # cs)
      else if c = CHR ''_'' \<and> is_digit d then int_digits acc (d # cs)
      else None)"

definition parse_decimal :: "string \<Rightarrow> nat option" where
  "parse_decimal s =
     (case s of [] \<Rightarrow> None
      | c # cs \<Rightarrow> if is_digit c then int_digits (digit_val c) cs else None)"

text \<open>
  \<^verbatim>\<open>int(s)\<close> for a string: \<open>None\<close> stands for the \<^verbatim>\<open>ValueError\<close> it raises.
  The limit that recent interpreters put on the number of digits is not modelled.
\<close>

definition py_int_str :: "string \<Rightarrow> int option" where
  "py_int_str s =
     (case strip s of [] \<Rightarrow> None
      | c # cs \<Rightarrow>
          if c = CHR ''-'' then map_option (\<lambda>n. - int n) (parse_decimal cs)
          else if c = CHR ''+'' then map_option int (parse_decimal cs)
          else map_option int (parse_decimal (c # cs)))"

fun py_int :: "pyval \<Rightarrow> py_error + int" where
  "py_int PNone = Inl TypeError"
| "py_int (PBool b) = Inr (if b then 1 else 0)"
| "py_int (PInt i) = Inr i"
| "py_int (PStr s) = (case py_int_str s of None \<Rightarrow> Inl ValueError | Some i \<Rightarrow> Inr i)"

text \<open>\<^verbatim>\<open>str(v)\<close>, which renders label values and the parts of a host label.\<close>

fun str_nat :: "nat \<Rightarrow> string" where
  "str_nat n =
     (if n < 10 then [digit_chars ! n] else str_nat (n div 10) @ [digit_chars ! (n mod 10)])"

definition str_int :: "int \<Rightarrow> string" where
  "str_int i = (if i < 0 then CHR ''-'' # str_nat (nat (- i)) else str_nat (nat i))"

fun py_str :: "pyval \<Rightarrow> string" where
  "py_str PNone = ''None''"
| "py_str (PBool b) = (if b then ''True'' else ''False'')"
| "py_str (PInt i) = str_int i"
| "py_str (PStr s) = s"

text \<open>\<^verbatim>\<open>s.split(sep)\<close> for a one-character separator.\<close>

fun split_on :: "char \<Rightarrow> string \<Rightarrow> string list" where
  "split_on sep [] = [[]]"
| "split_on sep (c # cs) =
     (if c = sep then [] # split_on sep cs
      else (case split_on sep cs of
              [] \<Rightarrow> [[c]]
            | p # ps \<Rightarrow> (c # p) # ps))"

section \<open>The environment and \<^verbatim>\<open>dict_get\<close>\<close>

text \<open>
  \<^verbatim>\<open>os.environ\<close> is an association list with one entry per variable, in iteration
  order. \<open>environ_dict\<close> is the same mapping seen as a Python dictionary of values.
\<close>

type_synonym environ = "(string \<times> string) list"

definition environ_dict :: "environ \<Rightarrow> (string \<times> pyval) list" where
  "environ_dict env = map (\<lambda>(k, v). (k, PStr v)) env"

definition dict_get :: "(string \<times> pyval) list \<Rightarrow> string \<Rightarrow> pyval \<Rightarrow> pyval" where
  "dict_get dictionary key default_value =
     (case map_of dictionary key of
        Some v \<Rightarrow> if truthy v then v else default_value
      | None \<Rightarrow> default_value)"

section \<open>AppConfig\<close>

text \<open>
  A host is a mapping with the two keys \<^verbatim>\<open>name\<close> and \<^verbatim>\<open>port\<close>, as the environment
  loop builds it and as the document lists it; a label is a mapping with the keys
  \<^verbatim>\<open>name\<close> and \<^verbatim>\<open>value\<close>. The values are Python scalars: the environment gives
  strings, a YAML document may give an integer port. The \<^verbatim>\<open>metrics\<close> attribute is a
  dictionary from setting name to integer.
\<close>

record host =
  host_name :: pyval
  host_port :: pyval

record label =
  label_name :: string
  label_value :: pyval

record app_config =
  metrics :: "(string \<times> int) list"
  hosts :: "host list"
  labels :: "label list"

text \<open>
  What is found at the configuration path: no file, a file that cannot be opened, a file
  whose YAML does not parse, a YAML value that is not a mapping, or a key-value document.
  The document's three recognised keys are each optional.
\<close>

record document =
  doc_metrics :: "(string \<times> int) list option"
  doc_hosts :: "host list option"
  doc_labels :: "label list option"

datatype config_source = NoFile | OpenFailure | YamlError | NotMapping | Document document

text \<open>Case-insensitive match of a literal prefix; returns the rest of the text.\<close>

fun match_literal_ci :: "string \<Rightarrow> string \<Rightarrow> string option" where
  "match_literal_ci [] s = Some s"
| "match_literal_ci (p # ps) [] = None"
| "match_literal_ci (p # ps) (c # cs) =
     (if to_lower p = to_lower c then match_literal_ci ps cs else None)"

text \<open>
  \<^verbatim>\<open>$\<close> without the multi-line flag: the end of the text, or just before a newline that
  ends the text.
\<close>

definition at_end :: "string \<Rightarrow> bool" where
  "at_end s = (s = [] \<or> s = [CHR 0x0A])"

text \<open>\<^verbatim>\<open>re.match(r"^X509_CONFIG_HOST_\d{1,}$", env, re.IGNORECASE | re.DOTALL)\<close>\<close>

definition host_env_match :: "string \<Rightarrow> bool" where
  "host_env_match env =
     (case match_literal_ci ''X509_CONFIG_HOST_'' env of
        None \<Rightarrow> False
      | Some rest \<Rightarrow> takeWhile is_digit rest \<noteq> [] \<and> at_end (dropWhile is_digit rest))"

text \<open>
  \<^verbatim>\<open>re.search(r"^X509_CONFIG_LABEL_([A-Z0-9_-]+)$", env, re.IGNORECASE | re.DOTALL)\<close>:
  the capture group, when the name matches.
\<close>

definition label_char :: "char \<Rightarrow> bool" where
  "label_char c = (c \<in> set upper_chars \<or> c \<in> set lower_chars \<or> is_digit c
                   \<or> c = CHR ''_'' \<or> c = CHR ''-'')"

definition label_env_match :: "string \<Rightarrow> string option" where
  "label_env_match env =
     (case match_literal_ci ''X509_CONFIG_LABEL_'' env of
        None \<Rightarrow> None
      | Some rest \<Rightarrow>
          if takeWhile label_char rest \<noteq> [] \<and> at_end (dropWhile label_char rest)
          then Some (takeWhile label_char rest) else None)"

fun find_labels_loop :: "environ \<Rightarrow> label list \<Rightarrow> label list" where
  "find_labels_loop [] acc = acc"
| "find_labels_loop ((env, value) # rest) acc =
     (case label_env_match env of
        Some lab \<Rightarrow>
          find_labels_loop rest (acc @ [\<lparr>label_name = lower lab, label_value = PStr value\<rparr>])
      | None \<Rightarrow> find_labels_loop rest acc)"

definition find_labels_from_environment :: "environ \<Rightarrow> label list" where
  "find_labels_from_environment env = find_labels_loop env []"

fun find_hosts_loop :: "environ \<Rightarrow> host list \<Rightarrow> host list" where
  "find_hosts_loop [] acc = acc"
| "find_hosts_loop ((env, value) # rest) acc =
     (if host_env_match env then
        (case split_on CHR '':'' value of
           [n, p] \<Rightarrow> find_hosts_loop rest (acc @ [\<lparr>host_name = PStr n, host_port = PStr p\<rparr>])
         | _ \<Rightarrow> find_hosts_loop rest acc)
      else find_hosts_loop rest acc)"

definition find_hosts_from_environment :: "environ \<Rightarrow> host list" where
  "find_hosts_from_environment env = find_hosts_loop env []"

text \<open>\<^verbatim>\<open>self.__dict__.update(settings)\<close>: every key the document has replaces the attribute.\<close>

definition update_settings :: "document \<Rightarrow> app_config \<Rightarrow> app_config" where
  "update_settings settings self =
     \<lparr>metrics = (case doc_metrics settings of Some m \<Rightarrow> m | None \<Rightarrow> metrics self),
      hosts = (case doc_hosts settings of Some h \<Rightarrow> h | None \<Rightarrow> hosts self),
      labels = (case doc_labels settings of Some l \<Rightarrow> l | None \<Rightarrow> labels self)\<rparr>"

text \<open>
  The \<^verbatim>\<open>try\<close> block around the file: only \<^verbatim>\<open>yaml.YAMLError\<close> is handled, by printing
  it; every other exception leaves the constructor.
\<close>

fun load_settings :: "config_source \<Rightarrow> app_config \<Rightarrow> py_error + app_config" where
  "load_settings NoFile self = Inr self"
| "load_settings OpenFailure self = Inl OSError"
| "load_settings YamlError self = Inr self"
| "load_settings NotMapping self = Inl TypeError"
| "load_settings (Document settings) self = Inr (update_settings settings self)"

text \<open>The loop that appends the environment's labels whose name is not yet in the list.\<close>

fun merge_env_labels :: "label list \<Rightarrow> label list \<Rightarrow> label list" where
  "merge_env_labels acc [] = acc"
| "merge_env_labels acc (l # rest) =
     merge_env_labels
       (if label_name l \<notin> set (map label_name acc) then acc @ [l] else acc) rest"

definition AppConfig :: "config_source \<Rightarrow> environ \<Rightarrow> py_error + app_config" where
  "AppConfig file env =
     (case py_int (dict_get (environ_dict env) ''X509_CONFIG_METRICS_PORT'' (PStr ''8932'')) of
        Inl e \<Rightarrow> Inl e
      | Inr port \<Rightarrow>
     (case py_int (dict_get (environ_dict env) ''X509_CONFIG_METRICS_POLLING_INTERVAL''
                     (PStr ''43200'')) of
        Inl e \<Rightarrow> Inl e
      | Inr pollingInterval \<Rightarrow>
     (case load_settings file
             \<lparr>metrics = [(''port'', port), (''pollingInterval'', pollingInterval)],
              hosts = [], labels = []\<rparr> of
        Inl e \<Rightarrow> Inl e
      | Inr self \<Rightarrow>
          let env_hosts = find_hosts_from_environment env;
              self1 = (if length env_hosts > 0
                       then self\<lparr>hosts := hosts self @ env_hosts\<rparr> else self);
              env_labels = find_labels_from_environment env;
              self2 = (if length env_labels > 0
                       then self1\<lparr>labels := merge_env_labels (labels self1) env_labels\<rparr>
                       else self1)
          in Inr self2)))"

section \<open>The metric sink\<close>

text \<open>
  A gauge of the metrics library has a name and a tuple of label names. A call
  \<^verbatim>\<open>g.labels(**kw).set(v)\<close> is recorded as the write \<open>GaugeSet name key v\<close>, where
  \<open>key\<close> is the tuple of rendered label values in the order of the gauge's label names;
  \<^verbatim>\<open>g.set(v)\<close> on a gauge without labels has the empty key. Instants are integers
  counting microseconds since the epoch, the resolution of Python's \<^verbatim>\<open>datetime\<close>; a
  timestamp gauge holds the instant it was given.
\<close>

record gauge =
  gauge_name :: string
  labelnames :: "string list"

datatype sink_op = GaugeSet string "string list" int

definition Gauge :: "string \<Rightarrow> string \<Rightarrow> string list \<Rightarrow> gauge" where
  "Gauge ns nm names = \<lparr>gauge_name = ns @ ''_'' @ nm, labelnames = names\<rparr>"

text \<open>
  \<^verbatim>\<open>labels(**labelkwargs)\<close>: the library raises \<^verbatim>\<open>ValueError\<close> for a gauge without
  label names and when the sorted keyword names differ from the sorted label names;
  otherwise the child is keyed by \<^verbatim>\<open>tuple(str(labelkwargs[l]) for l in labelnames)\<close>.
\<close>

definition gauge_labels :: "gauge \<Rightarrow> (string \<times> pyval) list \<Rightarrow> py_error + string list" where
  "gauge_labels g labelkwargs =
     (if labelnames g = [] then Inl ValueError
      else if sort (map fst labelkwargs) \<noteq> sort (labelnames g) then Inl ValueError
      else (case those (map (map_of labelkwargs) (labelnames g)) of
              None \<Rightarrow> Inl KeyError
            | Some vs \<Rightarrow> Inr (map py_str vs)))"

definition labels_set :: "gauge \<Rightarrow> (string \<times> pyval) list \<Rightarrow> int \<Rightarrow> py_error + sink_op" where
  "labels_set g labelkwargs v =
     (case gauge_labels g labelkwargs of
        Inl e \<Rightarrow> Inl e
      | Inr key \<Rightarrow> Inr (GaugeSet (gauge_name g) key v))"

text \<open>
  Statements run in sequence until the first one raises: the writes made so far, and the
  exception if there was one.
\<close>

fun run_sets :: "(py_error + sink_op) list \<Rightarrow> sink_op list \<times> py_error option" where
  "run_sets [] = ([], None)"
| "run_sets (Inl e # rest) = ([], Some e)"
| "run_sets (Inr w # rest) = (case run_sets rest of (ws, r) \<Rightarrow> (w # ws, r))"

text \<open>The sink's store: gauge name and key to the value last set.\<close>

type_synonym sink = "string \<Rightarrow> string list \<Rightarrow> int option"

fun apply_op :: "sink \<Rightarrow> sink_op \<Rightarrow> sink" where
  "apply_op s (GaugeSet g key v) = s(g := (s g)(key \<mapsto> v))"

definition run_sink :: "sink \<Rightarrow> sink_op list \<Rightarrow> sink" where
  "run_sink s ws = foldl apply_op s ws"

section \<open>X509Metrics\<close>

datatype oid = COUNTRY_NAME | LOCALITY_NAME | ORGANIZATION_NAME | ORGANIZATIONAL_UNIT_NAME
  | STATE_OR_PROVINCE_NAME | COMMON_NAME | OTHER_OID string

text \<open>
  The parsed certificate, as far as \<^verbatim>\<open>fetch\<close> reads it. A name is its list of
  attributes, each an object identifier with its value.
\<close>

record certificate =
  cert_not_valid_after :: int
  cert_not_valid_before :: int
  cert_serial_number :: int
  cert_issuer :: "(oid \<times> string) list"
  cert_subject :: "(oid \<times> string) list"

record x509_metrics =
  namespace :: string
  polling_interval_seconds :: int
  config :: app_config
  not_valid_after :: gauge
  not_valid_before :: gauge
  expired :: gauge
  host_read_errors :: gauge
  read_errors :: gauge
  build_info :: gauge

text \<open>The literal list of label names in \<^verbatim>\<open>X509Metrics.__init__\<close>.\<close>

definition init_labels :: "string list" where
  "init_labels =
     [''host'', ''issuer_C'', ''issuer_L'', ''issuer_O'', ''issuer_OU'', ''issuer_ST'',
      ''issuer_CN'', ''serial_number'', ''subject_C'', ''subject_L'', ''subject_O'',
      ''subject_OU'', ''subject_CN'', ''subject_ST'']"

text \<open>
  The constructor returns the object and the one write it makes, to the build-info gauge.
  Reading \<^verbatim>\<open>config.metrics['pollingInterval']\<close> raises \<^verbatim>\<open>KeyError\<close> when the key is
  absent. The library's check of the syntax of label names is not modelled.
\<close>

definition X509Metrics :: "app_config \<Rightarrow> environ \<Rightarrow> py_error + (x509_metrics \<times> sink_op list)" where
  "X509Metrics cfg env =
     (case map_of (metrics cfg) ''pollingInterval'' of
        None \<Rightarrow> Inl KeyError
      | Some interval \<Rightarrow>
          let ns = ''x509'';
              names = init_labels @ map label_name (labels cfg);
              self = \<lparr>namespace = ns,
                      polling_interval_seconds = interval,
                      config = cfg,
                      not_valid_after = Gauge ns ''cert_not_after'' names,
                      not_valid_before = Gauge ns ''cert_not_before'' names,
                      expired = Gauge ns ''expired'' names,
                      host_read_errors = Gauge ns ''host_read_errors'' [''host''],
                      read_errors = Gauge ns ''read_errors'' [],
                      build_info = Gauge ns ''build_info''
                                     [''version'', ''ref'', ''build_date'', ''sha'']\<rparr>;
              ver = dict_get (environ_dict env) ''APP_VERSION'' (PStr ''1.0.0-snapshot'');
              ref = dict_get (environ_dict env) ''APP_BUILD_REF'' (PStr ''unknown'');
              build_date = dict_get (environ_dict env) ''APP_BUILD_DATE'' (PStr ''unknown'');
              sha = dict_get (environ_dict env) ''APP_BUILD_SHA'' (PStr ''unknown'')
          in (case labels_set (build_info self)
                     [(''version'', ver), (''ref'', ref), (''build_date'', build_date),
                      (''sha'', sha)] 1 of
                Inl e \<Rightarrow> Inl e
              | Inr w \<Rightarrow> Inr (self, [w])))"

definition get_oid_attribute :: "(oid \<times> string) list \<Rightarrow> oid \<Rightarrow> pyval" where
  "get_oid_attribute nameObject oid =
     (case filter (\<lambda>a. fst a = oid) nameObject of
        [] \<Rightarrow> PNone
      | a # _ \<Rightarrow> PStr (snd a))"

text \<open>\<^verbatim>\<open>f"{host['name']}:{host['port']}"\<close>\<close>

definition host_label :: "host \<Rightarrow> string" where
  "host_label h = py_str (host_name h) @ '':'' @ py_str (host_port h)"

text \<open>The loop that adds each custom label whose name is not yet a key of the dictionary.\<close>

fun add_custom_labels :: "(string \<times> pyval) list \<Rightarrow> label list \<Rightarrow> (string \<times> pyval) list" where
  "add_custom_labels d [] = d"
| "add_custom_labels d (l # rest) =
     add_custom_labels
       (if label_name l \<notin> set (map fst d) then d @ [(label_name l, label_value l)] else d) rest"

definition fetch_labels :: "app_config \<Rightarrow> host \<Rightarrow> certificate \<Rightarrow> (string \<times> pyval) list" where
  "fetch_labels cfg h x509_cert =
     (let serial = cert_serial_number x509_cert;
          issuer = cert_issuer x509_cert;
          subject = cert_subject x509_cert
      in add_custom_labels
           [(''host'', PStr (host_label h)),
            (''issuer_C'', get_oid_attribute issuer COUNTRY_NAME),
            (''issuer_L'', get_oid_attribute issuer LOCALITY_NAME),
            (''issuer_O'', get_oid_attribute issuer ORGANIZATION_NAME),
            (''issuer_OU'', get_oid_attribute issuer ORGANIZATIONAL_UNIT_NAME),
            (''issuer_ST'', get_oid_attribute issuer STATE_OR_PROVINCE_NAME),
            (''issuer_CN'', get_oid_attribute issuer COMMON_NAME),
            (''serial_number'', PInt serial),
            (''subject_C'', get_oid_attribute subject COUNTRY_NAME),
            (''subject_L'', get_oid_attribute subject LOCALITY_NAME),
            (''subject_O'', get_oid_attribute subject ORGANIZATION_NAME),
            (''subject_OU'', get_oid_attribute subject ORGANIZATIONAL_UNIT_NAME),
            (''subject_CN'', get_oid_attribute subject COMMON_NAME),
            (''subject_ST'', get_oid_attribute subject STATE_OR_PROVINCE_NAME)]
           (labels cfg))"

text \<open>
  What one iteration meets outside the program: the result of connecting to the host and
  parsing its certificate (an exception, or the certificate), and the reading of the UTC
  clock taken for the \<^verbatim>\<open>expired\<close> gauge. Exceptions are those derived from
  \<^verbatim>\<open>Exception\<close>; signals that end the process are not part of the model.
\<close>

record observation =
  outcome :: "py_error + certificate"
  clock :: int

text \<open>The body of the \<^verbatim>\<open>try\<close> block for one host.\<close>

definition try_host :: "x509_metrics \<Rightarrow> host \<Rightarrow> observation \<Rightarrow> sink_op list \<times> py_error option" where
  "try_host self h ob =
     (case outcome ob of
        Inl e \<Rightarrow> ([], Some e)
      | Inr x509_cert \<Rightarrow>
          let expiration_date = cert_not_valid_after x509_cert;
              issued_date = cert_not_valid_before x509_cert;
              kw = fetch_labels (config self) h x509_cert
          in run_sets
               [labels_set (not_valid_after self) kw expiration_date,
                labels_set (not_valid_before self) kw issued_date,
                labels_set (expired self) kw (if expiration_date < clock ob then 1 else 0),
                labels_set (host_read_errors self) [(''host'', PStr (host_label h))] 0])"

text \<open>
  The loop over the hosts. The \<open>i\<close>-th iteration meets \<open>world i\<close>. An exception of the
  \<^verbatim>\<open>try\<close> block is handled by counting it and setting the host's error gauge; an
  exception of the handler itself ends the loop and leaves \<^verbatim>\<open>fetch\<close>.
\<close>

fun fetch_loop ::
  "x509_metrics \<Rightarrow> (nat \<Rightarrow> observation) \<Rightarrow> nat \<Rightarrow> host list \<Rightarrow> nat \<Rightarrow> sink_op list
     \<Rightarrow> (sink_op list \<times> nat) \<times> py_error option" where
  "fetch_loop self world i [] error_count trace = ((trace, error_count), None)"
| "fetch_loop self world i (h # rest) error_count trace =
     (case try_host self h (world i) of
        (ws, None) \<Rightarrow> fetch_loop self world (Suc i) rest error_count (trace @ ws)
      | (ws, Some e) \<Rightarrow>
          (case labels_set (host_read_errors self) [(''host'', PStr (host_label h))] 1 of
             Inl e' \<Rightarrow> ((trace @ ws, error_count + 1), Some e')
           | Inr w \<Rightarrow> fetch_loop self world (Suc i) rest (error_count + 1) (trace @ ws @ [w])))"

text \<open>One collection cycle: the writes it makes, and the exception if it raised.\<close>

definition fetch :: "x509_metrics \<Rightarrow> (nat \<Rightarrow> observation) \<Rightarrow> sink_op list \<times> py_error option" where
  "fetch self world =
     (case fetch_loop self world 0 (hosts (config self)) 0 [] of
        ((trace, error_count), Some e) \<Rightarrow> (trace, Some e)
      | ((trace, error_count), None) \<Rightarrow>
          (trace @ [GaugeSet (gauge_name (read_errors self)) [] (int error_count)], None))"

section \<open>Notions used to state the properties\<close>

text \<open>
  What the configuration document declares for each of its three keys, and the host that
  an environment value with one separator stands for.
\<close>

definition declared_metrics :: "config_source \<Rightarrow> (string \<times> int) list option" where
  "declared_metrics file = (case file of Document d \<Rightarrow> doc_metrics d | _ \<Rightarrow> None)"

definition declared_hosts :: "config_source \<Rightarrow> host list" where
  "declared_hosts file =
     (case file of Document d \<Rightarrow> (case doc_hosts d of Some h \<Rightarrow> h | None \<Rightarrow> []) | _ \<Rightarrow> [])"

definition declared_labels :: "config_source \<Rightarrow> label list" where
  "declared_labels file =
     (case file of Document d \<Rightarrow> (case doc_labels d of Some l \<Rightarrow> l | None \<Rightarrow> []) | _ \<Rightarrow> [])"



text \<open>The label list read as a dictionary from name to value.\<close>

definition label_alist :: "label list \<Rightarrow> (string \<times> pyval) list" where
  "label_alist ls = map (\<lambda>l. (label_name l, label_value l)) ls"

text \<open>The parts of a write.\<close>

fun op_gauge :: "sink_op \<Rightarrow> string" where
  "op_gauge (GaugeSet g key v) = g"

fun op_key :: "sink_op \<Rightarrow> string list" where
  "op_key (GaugeSet g key v) = key"

fun op_value :: "sink_op \<Rightarrow> int" where
  "op_value (GaugeSet g key v) = v"

text \<open>
  The hosts of a cycle paired with what their iterations meet, starting at iteration \<open>i\<close>.
\<close>

fun cycle_items :: "(nat \<Rightarrow> observation) \<Rightarrow> nat \<Rightarrow> host list \<Rightarrow> (host \<times> observation) list" where
  "cycle_items world i [] = []"
| "cycle_items world i (h # rest) = (h, world i) # cycle_items world (Suc i) rest"

text \<open>An iteration fails when its \<^verbatim>\<open>try\<close> block raises.\<close>

definition host_failed :: "x509_metrics \<Rightarrow> host \<times> observation \<Rightarrow> bool" where
  "host_failed self item = (snd (try_host self (fst item) (snd item)) \<noteq> None)"

text \<open>
  The writes of one host processed on its own: those of its \<^verbatim>\<open>try\<close> block, then the
  error flag when the block raised.
\<close>

definition host_writes :: "x509_metrics \<Rightarrow> host \<times> observation \<Rightarrow> sink_op list" where
  "host_writes self item =
     (case try_host self (fst item) (snd item) of
        (ws, None) \<Rightarrow> ws
      | (ws, Some e) \<Rightarrow>
          ws @ [GaugeSet (gauge_name (host_read_errors self)) [host_label (fst item)] 1])"

text \<open>The four writes of a host whose certificate was recorded under the key \<open>key\<close>.\<close>

definition certificate_writes ::
  "x509_metrics \<Rightarrow> host \<Rightarrow> certificate \<Rightarrow> int \<Rightarrow> string list \<Rightarrow> sink_op list" where
  "certificate_writes self h c now key =
     [GaugeSet (gauge_name (not_valid_after self)) key (cert_not_valid_after c),
      GaugeSet (gauge_name (not_valid_before self)) key (cert_not_valid_before c),
      GaugeSet (gauge_name (expired self)) key (if cert_not_valid_after c < now then 1 else 0),
      GaugeSet (gauge_name (host_read_errors self)) [host_label h] 0]"

text \<open>The twelve issuer and subject fields of the distinguished names.\<close>

definition dn_fields :: "string list" where
  "dn_fields =
     [''issuer_C'', ''issuer_L'', ''issuer_O'', ''issuer_OU'', ''issuer_ST'', ''issuer_CN'',
      ''subject_C'', ''subject_L'', ''subject_O'', ''subject_OU'', ''subject_CN'',
      ''subject_ST'']"

section \<open>An example cycle\<close>

text \<open>
  A configuration with three hosts and one custom label, the object its constructor
  builds, and a cycle in which the second host cannot be reached.
\<close>

definition example_cert :: certificate where
  "example_cert =
     \<lparr>cert_not_valid_after = 1700000000000000, cert_not_valid_before = 1600000000000000,
      cert_serial_number = 4711,
      cert_issuer = [(COUNTRY_NAME, ''US''), (COMMON_NAME, ''Example CA'')],
      cert_subject = [(COMMON_NAME, ''a.example'')]\<rparr>"

definition example_config :: app_config where
  "example_config =
     \<lparr>metrics = [(''port'', 8932), (''pollingInterval'', 43200)],
      hosts = [\<lparr>host_name = PStr ''a.example'', host_port = PInt 443\<rparr>,
               \<lparr>host_name = PStr ''b.example'', host_port = PStr ''443''\<rparr>,
               \<lparr>host_name = PStr ''c.example'', host_port = PStr ''8443''\<rparr>],
      labels = [\<lparr>label_name = ''env'', label_value = PStr ''prod''\<rparr>]\<rparr>"

definition example_metrics :: x509_metrics where
  "example_metrics =
     \<lparr>namespace = ''x509'', polling_interval_seconds = 43200, config = example_config,
      not_valid_after = Gauge ''x509'' ''cert_not_after'' (init_labels @ [''env'']),
      not_valid_before = Gauge ''x509'' ''cert_not_before'' (init_labels @ [''env'']),
      expired = Gauge ''x509'' ''expired'' (init_labels @ [''env'']),
      host_read_errors = Gauge ''x509'' ''host_read_errors'' [''host''],
      read_errors = Gauge ''x509'' ''read_errors'' [],
      build_info = Gauge ''x509'' ''build_info'' [''version'', ''ref'', ''build_date'', ''sha'']\<rparr>"

definition example_world :: "nat \<Rightarrow> observation" where
  "example_world i =
     (if i = 1 then \<lparr>outcome = Inl OSError, clock = 1650000000000000\<rparr>
      else \<lparr>outcome = Inr example_cert, clock = 1650000000000000\<rparr>)"

section \<open>Configuration resolution\<close>

lemma map_of_environ_dict: "map_of (environ_dict env) k = map_option PStr (map_of env k)"
  by (induction env) (auto simp: environ_dict_def)

lemma py_int_str_8932: "py_int_str ''8932'' = Some 8932"
  by (simp add: py_int_str_def strip_def py_isspace_def parse_decimal_def is_digit_def
      digit_chars_def digit_val_def)

lemma py_int_str_43200: "py_int_str ''43200'' = Some 43200"
  by (simp add: py_int_str_def strip_def py_isspace_def parse_decimal_def is_digit_def
      digit_chars_def digit_val_def)


lemma dict_get_environ:
  "dict_get (environ_dict env) k (PStr d) =
     PStr (case map_of env k of None \<Rightarrow> d | Some v \<Rightarrow> if v = [] then d else v)"
  by (simp add: dict_get_def map_of_environ_dict split: option.splits)








lemma load_settings_Inr:
  "load_settings file self0 = Inr self \<Longrightarrow>
     file \<noteq> OpenFailure \<and> file \<noteq> NotMapping
     \<and> metrics self = (case declared_metrics file of Some m \<Rightarrow> m | None \<Rightarrow> metrics self0)
     \<and> (hosts self0 = [] \<longrightarrow> hosts self = declared_hosts file)
     \<and> (labels self0 = [] \<longrightarrow> labels self = declared_labels file)"
  by (cases "file")
     (auto simp: declared_metrics_def declared_hosts_def declared_labels_def update_settings_def
           split: option.splits)


lemma load_settings_Inl:
  "load_settings file self0 = Inl e \<Longrightarrow> file = OpenFailure \<or> file = NotMapping"
  by (cases "file") auto

lemma AppConfig_Inr:
  assumes "AppConfig file env = Inr cfg"
  shows "\<exists>p q self.
           py_int (dict_get (environ_dict env) ''X509_CONFIG_METRICS_PORT'' (PStr ''8932'')) = Inr p
         \<and> py_int (dict_get (environ_dict env) ''X509_CONFIG_METRICS_POLLING_INTERVAL''
                     (PStr ''43200'')) = Inr q
         \<and> load_settings file \<lparr>metrics = [(''port'', p), (''pollingInterval'', q)],
                                hosts = [], labels = []\<rparr> = Inr self
         \<and> metrics cfg = metrics self
         \<and> hosts cfg = hosts self @ find_hosts_from_environment env
         \<and> labels cfg = merge_env_labels (labels self) (find_labels_from_environment env)"
  using assms
  by (auto simp: AppConfig_def Let_def split: sum.splits if_splits)


text \<open>
  The host pattern, read declaratively: a name matches when it is the literal prefix, in
  any mix of upper and lower case, followed by one or more digits and at most one final
  newline.
\<close>

lemma match_literal_ci_iff:
  "match_literal_ci p s = Some rest \<longleftrightarrow>
     (\<exists>pre. s = pre @ rest \<and> length pre = length p \<and> lower pre = lower p)"
proof (induction p s rule: match_literal_ci.induct)
  case (1 s)
  then show ?case by (auto simp: lower_def)
next
  case (2 p ps)
  then show ?case by (auto simp: lower_def)
next
  case (3 p ps c cs)
  show ?case
  proof (cases "to_lower p = to_lower c")
    case True
    have "(\<exists>pre. cs = pre @ rest \<and> length pre = length ps \<and> lower pre = lower ps)
          \<longleftrightarrow> (\<exists>pre. c # cs = pre @ rest \<and> length pre = length (p # ps)
                        \<and> lower pre = lower (p # ps))"
    proof
      assume "\<exists>pre. cs = pre @ rest \<and> length pre = length ps \<and> lower pre = lower ps"
      then obtain pre where "cs = pre @ rest" "length pre = length ps" "lower pre = lower ps"
        by blast
      with True have "c # cs = (c # pre) @ rest \<and> length (c # pre) = length (p # ps)
                        \<and> lower (c # pre) = lower (p # ps)"
        by (simp add: lower_def)
      then show "\<exists>pre. c # cs = pre @ rest \<and> length pre = length (p # ps)
                        \<and> lower pre = lower (p # ps)" by blast
    next
      assume "\<exists>pre. c # cs = pre @ rest \<and> length pre = length (p # ps)
                        \<and> lower pre = lower (p # ps)"
      then obtain pre where pre: "c # cs = pre @ rest" "length pre = length (p # ps)"
        "lower pre = lower (p # ps)" by blast
      then obtain x pre' where "pre = x # pre'" by (cases pre) auto
      with pre show "\<exists>pre. cs = pre @ rest \<and> length pre = length ps \<and> lower pre = lower ps"
        by (auto simp: lower_def)
    qed
    with True 3 show ?thesis by simp
  next
    case False
    have "\<not> (\<exists>pre. c # cs = pre @ rest \<and> length pre = length (p # ps)
                        \<and> lower pre = lower (p # ps))"
    proof
      assume "\<exists>pre. c # cs = pre @ rest \<and> length pre = length (p # ps)
                        \<and> lower pre = lower (p # ps)"
      then obtain pre where pre: "c # cs = pre @ rest" "length pre = length (p # ps)"
        "lower pre = lower (p # ps)" by blast
      then obtain x pre' where "pre = x # pre'" by (cases pre) auto
      with pre False show False by (auto simp: lower_def)
    qed
    with False show ?thesis by simp
  qed
qed

lemma lower_host_prefix: "lower ''X509_CONFIG_HOST_'' = ''x509_config_host_''"
  by (simp add: lower_def to_lower_def upper_chars_def lower_chars_def)

lemma newline_not_digit: "\<not> is_digit (CHR 0x0A)"
  by (simp add: is_digit_def digit_chars_def)

lemma host_env_match_iff:
  "host_env_match env \<longleftrightarrow>
     (\<exists>pre ds. (env = pre @ ds \<or> env = pre @ ds @ [CHR 0x0A])
        \<and> length pre = 17 \<and> lower pre = ''x509_config_host_''
        \<and> ds \<noteq> [] \<and> (\<forall>d\<in>set ds. is_digit d))"
proof
  assume "host_env_match env"
  then obtain rest where m: "match_literal_ci ''X509_CONFIG_HOST_'' env = Some rest"
    and ds: "takeWhile is_digit rest \<noteq> []" and e: "at_end (dropWhile is_digit rest)"
    by (auto simp: host_env_match_def split: option.splits)
  from m obtain pre where pre: "env = pre @ rest" "length pre = 17"
    "lower pre = ''x509_config_host_''"
    by (auto simp: match_literal_ci_iff lower_host_prefix)
  let ?ds = "takeWhile is_digit rest"
  have "rest = ?ds @ dropWhile is_digit rest" by simp
  with e have "rest = ?ds \<or> rest = ?ds @ [CHR 0x0A]"
    unfolding at_end_def by (metis append_Nil2)
  with pre have "env = pre @ ?ds \<or> env = pre @ ?ds @ [CHR 0x0A]" by auto
  moreover have "\<forall>d\<in>set ?ds. is_digit d" by (auto dest: set_takeWhileD)
  ultimately show "\<exists>pre ds. (env = pre @ ds \<or> env = pre @ ds @ [CHR 0x0A])
        \<and> length pre = 17 \<and> lower pre = ''x509_config_host_''
        \<and> ds \<noteq> [] \<and> (\<forall>d\<in>set ds. is_digit d)"
    using pre(2,3) ds by blast
next
  assume "\<exists>pre ds. (env = pre @ ds \<or> env = pre @ ds @ [CHR 0x0A])
        \<and> length pre = 17 \<and> lower pre = ''x509_config_host_''
        \<and> ds \<noteq> [] \<and> (\<forall>d\<in>set ds. is_digit d)"
  then obtain pre ds where alt: "env = pre @ ds \<or> env = pre @ ds @ [CHR 0x0A]"
    and pre: "length pre = 17" "lower pre = ''x509_config_host_''"
    and ds: "ds \<noteq> []" "\<forall>d\<in>set ds. is_digit d"
    by blast
  from alt obtain t where env: "env = pre @ ds @ t" and t: "t = [] \<or> t = [CHR 0x0A]"
    by (metis append_Nil2)
  have m: "match_literal_ci ''X509_CONFIG_HOST_'' env = Some (ds @ t)"
    unfolding match_literal_ci_iff using env pre by (auto simp: lower_host_prefix)
  have tw: "takeWhile is_digit (ds @ t) = ds"
    using ds t by (auto simp: takeWhile_append2 newline_not_digit)
  have dw: "dropWhile is_digit (ds @ t) = t"
    using ds t by (auto simp: dropWhile_append2 newline_not_digit)
  from m tw dw ds t show "host_env_match env"
    by (auto simp: host_env_match_def at_end_def)
qed








text \<open>
  Claim C9. When the configuration document is loaded and has a top-level
  \<^verbatim>\<open>metrics\<close> mapping, the resolved metrics settings are that mapping and nothing else:
  the values built from the environment are discarded, and a key the mapping lacks is
  absent from the resolved settings.
\<close>

theorem file_metrics_replace_environment:
  "AppConfig (Document d) env = Inr cfg \<Longrightarrow> doc_metrics d = Some m \<Longrightarrow>
     metrics cfg = m \<and> (\<forall>k. k \<notin> fst ` set m \<longrightarrow> map_of (metrics cfg) k = None)"
proof -
  assume a: "AppConfig (Document d) env = Inr cfg" and m: "doc_metrics d = Some m"
  from AppConfig_Inr [OF a] obtain p q self where
    l: "load_settings (Document d) \<lparr>metrics = [(''port'', p), (''pollingInterval'', q)],
                                hosts = [], labels = []\<rparr> = Inr self"
    and c: "metrics cfg = metrics self"
    by blast
  from load_settings_Inr [OF l] m have "metrics self = m"
    by (simp add: declared_metrics_def)
  with c have "metrics cfg = m" by simp
  then show ?thesis by (simp add: map_of_eq_None_iff)
qed

lemma py_int_str_9999: "py_int_str ''9999'' = Some 9999"
  by (simp add: py_int_str_def strip_def py_isspace_def parse_decimal_def is_digit_def
      digit_chars_def digit_val_def)

lemma no_labels_in_metrics_env:
  "find_labels_from_environment
     [(''X509_CONFIG_METRICS_PORT'', ''9999''), (''X509_CONFIG_METRICS_POLLING_INTERVAL'', ''9999'')] = []"
  by (simp add: find_labels_from_environment_def label_env_match_def to_lower_def
        upper_chars_def lower_chars_def)

lemma no_hosts_in_metrics_env:
  "find_hosts_from_environment
     [(''X509_CONFIG_METRICS_PORT'', ''9999''), (''X509_CONFIG_METRICS_POLLING_INTERVAL'', ''9999'')] = []"
  by (simp add: find_hosts_from_environment_def host_env_match_def to_lower_def
        upper_chars_def lower_chars_def)

lemma AppConfig_file_port_only:
  "AppConfig (Document \<lparr>doc_metrics = Some [(''port'', 9100)], doc_hosts = None, doc_labels = None\<rparr>)
     [(''X509_CONFIG_METRICS_PORT'', ''9999''), (''X509_CONFIG_METRICS_POLLING_INTERVAL'', ''9999'')]
   = Inr \<lparr>metrics = [(''port'', 9100)], hosts = [], labels = []\<rparr>"
  by (simp add: AppConfig_def dict_get_environ py_int_str_9999 update_settings_def
      no_labels_in_metrics_env no_hosts_in_metrics_env)

theorem file_metrics_replace_environment_witness:
  "AppConfig (Document \<lparr>doc_metrics = Some [(''port'', 9100)], doc_hosts = None, doc_labels = None\<rparr>)
     [(''X509_CONFIG_METRICS_PORT'', ''9999''), (''X509_CONFIG_METRICS_POLLING_INTERVAL'', ''9999'')]
   = Inr \<lparr>metrics = [(''port'', 9100)], hosts = [], labels = []\<rparr>
   \<and> metrics \<lparr>metrics = [(''port'', 9100)], hosts = [], labels = []\<rparr> = [(''port'', 9100)]
   \<and> map_of (metrics \<lparr>metrics = [(''port'', 9100)], hosts = [], labels = []\<rparr>)
        ''pollingInterval'' = None"
  using file_metrics_replace_environment [OF AppConfig_file_port_only, of "[(''port'', 9100)]"]
    AppConfig_file_port_only
  by simp





text \<open>
  Claim C10. In every lookup through \<^verbatim>\<open>dict_get\<close>, a key bound to a falsy value
  (the empty string, zero, \<^verbatim>\<open>None\<close>, \<^verbatim>\<open>False\<close>) gives the default, as an absent key
  does. So an empty port or polling-interval variable yields the built-in default, 8932 or
  43200, and no error.
\<close>

theorem dict_get_falsy_is_absent:
  "(map_of d k = Some v \<and> \<not> truthy v \<longrightarrow> dict_get d k dv = dv)
   \<and> (map_of d k = None \<longrightarrow> dict_get d k dv = dv)
   \<and> (map_of env ''X509_CONFIG_METRICS_PORT'' = Some [] \<longrightarrow>
        py_int (dict_get (environ_dict env) ''X509_CONFIG_METRICS_PORT'' (PStr ''8932''))
          = Inr 8932)
   \<and> (map_of env ''X509_CONFIG_METRICS_POLLING_INTERVAL'' = Some [] \<longrightarrow>
        py_int (dict_get (environ_dict env) ''X509_CONFIG_METRICS_POLLING_INTERVAL''
                  (PStr ''43200'')) = Inr 43200)"
  by (simp add: dict_get_def map_of_environ_dict py_int_str_8932 py_int_str_43200)

theorem dict_get_falsy_is_absent_witness:
  "dict_get [(''k'', PStr [])] ''k'' (PInt 7) = PInt 7
   \<and> dict_get [(''k'', PInt 0)] ''k'' (PInt 7) = PInt 7
   \<and> dict_get [] ''k'' (PInt 7) = PInt 7
   \<and> py_int (dict_get (environ_dict [(''X509_CONFIG_METRICS_PORT'', [])])
               ''X509_CONFIG_METRICS_PORT'' (PStr ''8932'')) = Inr 8932
   \<and> py_int (dict_get (environ_dict [(''X509_CONFIG_METRICS_POLLING_INTERVAL'', [])])
               ''X509_CONFIG_METRICS_POLLING_INTERVAL'' (PStr ''43200'')) = Inr 43200"
  using dict_get_falsy_is_absent [of "[(''k'', PStr [])]" "''k''" "PStr []" "PInt 7"
          "[(''X509_CONFIG_METRICS_PORT'', [])]"]
    dict_get_falsy_is_absent [of "[(''k'', PInt 0)]" "''k''" "PInt 0" "PInt 7"
          "[(''X509_CONFIG_METRICS_POLLING_INTERVAL'', [])]"]
    dict_get_falsy_is_absent [of "[]" "''k''" PNone "PInt 7" "[]"]
  by simp

lemma to_lower_idem: "to_lower (to_lower c) = to_lower c"
  by (simp add: to_lower_def upper_chars_def lower_chars_def)

lemma lower_idem: "lower (lower s) = lower s"
  by (simp add: lower_def to_lower_idem)

lemma find_labels_loop_lower:
  "\<forall>l\<in>set acc. lower (label_name l) = label_name l \<Longrightarrow>
   \<forall>l\<in>set (find_labels_loop env acc). lower (label_name l) = label_name l"
proof (induction env arbitrary: acc)
  case Nil
  then show ?case by simp
next
  case (Cons kv env)
  obtain k v where kv: "kv = (k, v)" by (cases kv)
  show ?case
  proof (cases "label_env_match k")
    case None
    with Cons show ?thesis by (simp add: kv)
  next
    case (Some lab)
    have "\<forall>l\<in>set (acc @ [\<lparr>label_name = lower lab, label_value = PStr v\<rparr>]).
            lower (label_name l) = label_name l"
      using Cons.prems by (simp add: lower_idem)
    from Cons.IH [OF this] Some show ?thesis by (simp add: kv)
  qed
qed

lemma find_labels_lower:
  "\<forall>l\<in>set (find_labels_from_environment env). lower (label_name l) = label_name l"
  unfolding find_labels_from_environment_def
  by (rule find_labels_loop_lower) simp

lemma merge_env_labels_prefix:
  "\<exists>extra. merge_env_labels acc ls = acc @ extra \<and> set extra \<subseteq> set ls
      \<and> (\<forall>l\<in>set extra. label_name l \<notin> label_name ` set acc)"
proof (induction ls arbitrary: acc)
  case Nil
  then show ?case by simp
next
  case (Cons l ls)
  show ?case
  proof (cases "label_name l \<in> label_name ` set acc")
    case True
    from Cons.IH [of acc] obtain extra where
      "merge_env_labels acc ls = acc @ extra" "set extra \<subseteq> set ls"
      "\<forall>l\<in>set extra. label_name l \<notin> label_name ` set acc" by blast
    with True show ?thesis by auto
  next
    case False
    from Cons.IH [of "acc @ [l]"] obtain extra where
      e: "merge_env_labels (acc @ [l]) ls = (acc @ [l]) @ extra" "set extra \<subseteq> set ls"
      "\<forall>x\<in>set extra. label_name x \<notin> label_name ` set (acc @ [l])" by blast
    have "merge_env_labels acc (l # ls) = acc @ (l # extra)"
      using False e(1) by simp
    moreover have "set (l # extra) \<subseteq> set (l # ls)" using e(2) by auto
    moreover have "\<forall>x\<in>set (l # extra). label_name x \<notin> label_name ` set acc"
      using False e(3) by auto
    ultimately show ?thesis by blast
  qed
qed

lemma merge_env_labels_distinct:
  "distinct (map label_name acc) \<Longrightarrow> distinct (map label_name (merge_env_labels acc ls))"
  by (induction ls arbitrary: acc) auto

lemma map_of_label_alist:
  "distinct (map label_name ls) \<Longrightarrow> f \<in> set ls \<Longrightarrow>
   map_of (label_alist ls) (label_name f) = Some (label_value f)"
  by (induction ls) (auto simp: label_alist_def rev_image_eqI)

lemma labels_resolved_aux:
  assumes "AppConfig file env = Inr cfg"
  shows "labels cfg = merge_env_labels (declared_labels file) (find_labels_from_environment env)"
proof -
  from AppConfig_Inr [OF assms] obtain p q self where
    l: "load_settings file \<lparr>metrics = [(''port'', p), (''pollingInterval'', q)],
                                hosts = [], labels = []\<rparr> = Inr self"
    and c: "labels cfg = merge_env_labels (labels self) (find_labels_from_environment env)"
    by blast
  from load_settings_Inr [OF l] have "labels self = declared_labels file" by simp
  with c show ?thesis by simp
qed

lemma label_env_match_ENV: "label_env_match ''X509_CONFIG_LABEL_ENV'' = Some ''ENV''"
  by (simp add: label_env_match_def to_lower_def upper_chars_def lower_chars_def label_char_def
      is_digit_def digit_chars_def at_end_def)

lemma label_env_match_Team: "label_env_match ''X509_CONFIG_LABEL_Team'' = Some ''Team''"
  by (simp add: label_env_match_def to_lower_def upper_chars_def lower_chars_def label_char_def
      is_digit_def digit_chars_def at_end_def)

lemma lower_ENV: "lower ''ENV'' = ''env''"
  by (simp add: lower_def to_lower_def upper_chars_def lower_chars_def)

lemma lower_Env: "lower ''Env'' = ''env''"
  by (simp add: lower_def to_lower_def upper_chars_def lower_chars_def)

lemma lower_Team: "lower ''Team'' = ''team''"
  by (simp add: lower_def to_lower_def upper_chars_def lower_chars_def)

lemma lower_env: "lower ''env'' = ''env''"
  by (simp add: lower_def to_lower_def upper_chars_def lower_chars_def)

lemma host_env_match_label_ENV: "\<not> host_env_match ''X509_CONFIG_LABEL_ENV''"
  by (simp add: host_env_match_def to_lower_def upper_chars_def lower_chars_def)

lemma host_env_match_label_Team: "\<not> host_env_match ''X509_CONFIG_LABEL_Team''"
  by (simp add: host_env_match_def to_lower_def upper_chars_def lower_chars_def)

text \<open>
  Claim C6, as stated, fails: the names of file-declared labels are compared as written,
  so the file's label \<^verbatim>\<open>Env\<close> and the environment's label \<^verbatim>\<open>env\<close> are both kept,
  two labels with the same name when case is ignored.
\<close>

theorem labels_case_counterexample:
  "AppConfig (Document \<lparr>doc_metrics = None, doc_hosts = None,
                         doc_labels = Some [\<lparr>label_name = ''Env'', label_value = PStr ''prod''\<rparr>]\<rparr>)
     [(''X509_CONFIG_LABEL_ENV'', ''dev'')]
   = Inr \<lparr>metrics = [(''port'', 8932), (''pollingInterval'', 43200)], hosts = [],
          labels = [\<lparr>label_name = ''Env'', label_value = PStr ''prod''\<rparr>,
                    \<lparr>label_name = ''env'', label_value = PStr ''dev''\<rparr>]\<rparr>
   \<and> \<not> distinct (map lower (map label_name
          [\<lparr>label_name = ''Env'', label_value = PStr ''prod''\<rparr>,
           \<lparr>label_name = ''env'', label_value = PStr ''dev''\<rparr>]))"
  by (simp add: AppConfig_def dict_get_environ py_int_str_8932 py_int_str_43200
      update_settings_def find_labels_from_environment_def find_hosts_from_environment_def
      label_env_match_ENV host_env_match_label_ENV lower_ENV lower_Env lower_env)

text \<open>
  Claim C6, amended. When the file-declared labels have pairwise distinct names, the
  resolved label list has no two labels with the same name, names being compared exactly
  (the environment's names are lower-cased before the comparison, the file's names are
  taken as written). Every file-declared label keeps its value in the resolved list, and
  every other resolved label comes from the environment and has a name no file-declared
  label has: on a collision the file-declared value is the one kept. When moreover the
  file-declared names are lower-case, no two resolved names are equal when case is ignored.
\<close>

theorem labels_resolved:
  assumes "AppConfig file env = Inr cfg"
    and "distinct (map label_name (declared_labels file))"
  shows "distinct (map label_name (labels cfg))
    \<and> (\<forall>f\<in>set (declared_labels file).
          map_of (label_alist (labels cfg)) (label_name f) = Some (label_value f))
    \<and> (\<forall>l\<in>set (labels cfg). l \<in> set (declared_labels file)
          \<or> (l \<in> set (find_labels_from_environment env)
              \<and> label_name l \<notin> label_name ` set (declared_labels file)))
    \<and> ((\<forall>f\<in>set (declared_labels file). lower (label_name f) = label_name f) \<longrightarrow>
          distinct (map lower (map label_name (labels cfg))))"
proof -
  let ?d = "declared_labels file" and ?e = "find_labels_from_environment env"
  have eq: "labels cfg = merge_env_labels ?d ?e"
    by (rule labels_resolved_aux [OF assms(1)])
  have dist: "distinct (map label_name (labels cfg))"
    unfolding eq by (rule merge_env_labels_distinct [OF assms(2)])
  from merge_env_labels_prefix [of ?d ?e] obtain extra where
    ex: "labels cfg = ?d @ extra" "set extra \<subseteq> set ?e"
      "\<forall>l\<in>set extra. label_name l \<notin> label_name ` set ?d"
    unfolding eq by blast
  have kept: "\<forall>f\<in>set ?d. map_of (label_alist (labels cfg)) (label_name f) = Some (label_value f)"
  proof
    fix f assume "f \<in> set ?d"
    then have "f \<in> set (labels cfg)" by (simp add: ex(1))
    from map_of_label_alist [OF dist this]
    show "map_of (label_alist (labels cfg)) (label_name f) = Some (label_value f)" .
  qed
  have origin: "\<forall>l\<in>set (labels cfg). l \<in> set ?d
          \<or> (l \<in> set ?e \<and> label_name l \<notin> label_name ` set ?d)"
    using ex by auto
  have ci: "distinct (map lower (map label_name (labels cfg)))"
    if low: "\<forall>f\<in>set ?d. lower (label_name f) = label_name f"
  proof -
    have "\<forall>l\<in>set (labels cfg). lower (label_name l) = label_name l"
      using origin low find_labels_lower [of env] by blast
    then have meq: "map lower (map label_name (labels cfg)) = map label_name (labels cfg)"
      by (intro map_idI) auto
    show ?thesis unfolding meq by (rule dist)
  qed
  from dist kept origin ci show ?thesis by blast
qed

lemma AppConfig_labels_example:
  "AppConfig (Document \<lparr>doc_metrics = None, doc_hosts = None,
                         doc_labels = Some [\<lparr>label_name = ''env'', label_value = PStr ''prod''\<rparr>]\<rparr>)
     [(''X509_CONFIG_LABEL_ENV'', ''dev''), (''X509_CONFIG_LABEL_Team'', ''ops'')]
   = Inr \<lparr>metrics = [(''port'', 8932), (''pollingInterval'', 43200)], hosts = [],
          labels = [\<lparr>label_name = ''env'', label_value = PStr ''prod''\<rparr>,
                    \<lparr>label_name = ''team'', label_value = PStr ''ops''\<rparr>]\<rparr>"
  by (simp add: AppConfig_def dict_get_environ py_int_str_8932 py_int_str_43200
      update_settings_def find_labels_from_environment_def find_hosts_from_environment_def
      label_env_match_ENV label_env_match_Team host_env_match_label_ENV
      host_env_match_label_Team lower_ENV lower_Team)

theorem labels_resolved_witness:
  "distinct (map label_name [\<lparr>label_name = ''env'', label_value = PStr ''prod''\<rparr>,
                             \<lparr>label_name = ''team'', label_value = PStr ''ops''\<rparr>])
   \<and> map_of (label_alist [\<lparr>label_name = ''env'', label_value = PStr ''prod''\<rparr>,
                           \<lparr>label_name = ''team'', label_value = PStr ''ops''\<rparr>]) ''env''
       = Some (PStr ''prod'')
   \<and> distinct (map lower (map label_name
        [\<lparr>label_name = ''env'', label_value = PStr ''prod''\<rparr>,
         \<lparr>label_name = ''team'', label_value = PStr ''ops''\<rparr>]))"
  using labels_resolved [OF AppConfig_labels_example]
  by (simp add: declared_labels_def lower_env)

section \<open>The collection cycle\<close>

subsection \<open>The sink and the constructor\<close>

lemma those_map_of_keys:
  "distinct (map fst kw) \<Longrightarrow> set ks \<subseteq> set (map fst kw) \<Longrightarrow>
   those (map (map_of kw) ks) = Some (map (\<lambda>k. the (map_of kw k)) ks)"
proof (induction ks)
  case Nil
  then show ?case by simp
next
  case (Cons k ks)
  then obtain v where "map_of kw k = Some v"
    by (cases "map_of kw k") (auto simp: map_of_eq_None_iff)
  with Cons show ?case by simp
qed

lemma map_the_map_of_keys:
  "distinct (map fst kw) \<Longrightarrow> map (\<lambda>k. the (map_of kw k)) (map fst kw) = map snd kw"
  by (induction kw) (auto simp: rev_image_eqI)

lemma gauge_labels_same_keys:
  assumes "labelnames g \<noteq> []" and "map fst kw = labelnames g" and "distinct (labelnames g)"
  shows "gauge_labels g kw = Inr (map py_str (map snd kw))"
proof -
  have d: "distinct (map fst kw)" using assms(2,3) by simp
  have "those (map (map_of kw) (labelnames g)) = Some (map snd kw)"
    using those_map_of_keys [OF d, of "map fst kw"] map_the_map_of_keys [OF d] assms(2)
    by simp
  with assms show ?thesis by (simp add: gauge_labels_def)
qed

lemma gauge_labels_names_only:
  "labelnames g = labelnames g' \<Longrightarrow> gauge_labels g kw = gauge_labels g' kw"
  by (simp add: gauge_labels_def)

lemma labels_set_host:
  "labels_set (Gauge ns nm [''host'']) [(''host'', v)] x
     = Inr (GaugeSet (ns @ ''_'' @ nm) [py_str v] x)"
  by (simp add: labels_set_def gauge_labels_def Gauge_def)

lemma build_info_write:
  "labels_set (Gauge ns nm [''version'', ''ref'', ''build_date'', ''sha''])
     [(''version'', a), (''ref'', b), (''build_date'', c), (''sha'', d)] x
   = Inr (GaugeSet (ns @ ''_'' @ nm) [py_str a, py_str b, py_str c, py_str d] x)"
proof -
  have "gauge_labels (Gauge ns nm [''version'', ''ref'', ''build_date'', ''sha''])
     [(''version'', a), (''ref'', b), (''build_date'', c), (''sha'', d)]
     = Inr (map py_str (map snd [(''version'', a), (''ref'', b), (''build_date'', c), (''sha'', d)]))"
    by (rule gauge_labels_same_keys) (simp_all add: Gauge_def)
  then show ?thesis by (simp add: labels_set_def Gauge_def)
qed

lemma X509Metrics_Inr:
  assumes "X509Metrics cfg env = Inr (self, ws)"
  shows "config self = cfg
    \<and> not_valid_after self = Gauge ''x509'' ''cert_not_after'' (init_labels @ map label_name (labels cfg))
    \<and> not_valid_before self = Gauge ''x509'' ''cert_not_before'' (init_labels @ map label_name (labels cfg))
    \<and> expired self = Gauge ''x509'' ''expired'' (init_labels @ map label_name (labels cfg))
    \<and> host_read_errors self = Gauge ''x509'' ''host_read_errors'' [''host'']
    \<and> read_errors self = Gauge ''x509'' ''read_errors'' []
    \<and> map_of (metrics cfg) ''pollingInterval'' = Some (polling_interval_seconds self)"
  using assms
  by (auto simp: X509Metrics_def Let_def build_info_write split: option.splits)

lemma X509Metrics_success:
  "map_of (metrics cfg) ''pollingInterval'' = Some p \<Longrightarrow> \<exists>self ws. X509Metrics cfg env = Inr (self, ws)"
  by (simp add: X509Metrics_def Let_def build_info_write)

subsection \<open>One iteration and the loop\<close>

lemma try_host_cases:
  assumes init: "X509Metrics cfg env = Inr (self, ws0)"
  shows "try_host self h ob =
     (case outcome ob of
        Inl e \<Rightarrow> ([], Some e)
      | Inr c \<Rightarrow>
          (case gauge_labels (not_valid_after self) (fetch_labels cfg h c) of
             Inl e \<Rightarrow> ([], Some e)
           | Inr key \<Rightarrow> (certificate_writes self h c (clock ob) key, None)))"
proof (cases "outcome ob")
  case (Inl e)
  then show ?thesis by (simp add: try_host_def)
next
  case (Inr c)
  note facts = X509Metrics_Inr [OF init]
  let ?kw = "fetch_labels cfg h c"
  have nb: "gauge_labels (not_valid_before self) ?kw = gauge_labels (not_valid_after self) ?kw"
    by (rule gauge_labels_names_only) (simp add: facts Gauge_def)
  have ex: "gauge_labels (expired self) ?kw = gauge_labels (not_valid_after self) ?kw"
    by (rule gauge_labels_names_only) (simp add: facts Gauge_def)
  have hre: "labels_set (host_read_errors self) [(''host'', PStr (host_label h))] 0
      = Inr (GaugeSet (gauge_name (host_read_errors self)) [host_label h] 0)"
    using labels_set_host [of "''x509''" "''host_read_errors''" "PStr (host_label h)" 0]
    by (simp add: facts Gauge_def)
  show ?thesis
  proof (cases "gauge_labels (not_valid_after self) ?kw")
    case (Inl e)
    with Inr show ?thesis
      by (simp add: try_host_def Let_def labels_set_def facts)
  next
    case (Inr key)
    with \<open>outcome ob = Inr c\<close> nb ex hre show ?thesis
      by (simp add: try_host_def Let_def labels_set_def facts certificate_writes_def)
  qed
qed

lemma handler_write:
  assumes init: "X509Metrics cfg env = Inr (self, ws0)"
  shows "labels_set (host_read_errors self) [(''host'', PStr (host_label h))] 1
      = Inr (GaugeSet (gauge_name (host_read_errors self)) [host_label h] 1)"
  using labels_set_host [of "''x509''" "''host_read_errors''" "PStr (host_label h)" 1]
  by (simp add: X509Metrics_Inr [OF init] Gauge_def)

lemma host_failed_writes:
  assumes init: "X509Metrics cfg env = Inr (self, ws0)" and "host_failed self item"
  shows "host_writes self item
           = [GaugeSet (gauge_name (host_read_errors self)) [host_label (fst item)] 1]"
  using assms(2)
  by (auto simp: host_failed_def host_writes_def try_host_cases [OF init] split: sum.splits)

lemma host_succeeded_writes:
  assumes init: "X509Metrics cfg env = Inr (self, ws0)" and "\<not> host_failed self item"
  shows "\<exists>c key. outcome (snd item) = Inr c
           \<and> gauge_labels (not_valid_after self) (fetch_labels cfg (fst item) c) = Inr key
           \<and> try_host self (fst item) (snd item)
               = (certificate_writes self (fst item) c (clock (snd item)) key, None)
           \<and> host_writes self item = certificate_writes self (fst item) c (clock (snd item)) key"
  using assms(2)
  by (auto simp: host_failed_def host_writes_def try_host_cases [OF init] split: sum.splits)

lemma fetch_loop_eq:
  assumes init: "X509Metrics cfg env = Inr (self, ws0)"
  shows "fetch_loop self world i hs n trace =
           ((trace @ concat (map (host_writes self) (cycle_items world i hs)),
             n + length (filter (host_failed self) (cycle_items world i hs))), None)"
proof (induction hs arbitrary: i n trace)
  case Nil
  then show ?case by simp
next
  case (Cons h hs)
  show ?case
  proof (cases "host_failed self (h, world i)")
    case True
    then obtain ws e where t: "try_host self h (world i) = (ws, Some e)"
      by (cases "try_host self h (world i)") (auto simp: host_failed_def)
    have w: "host_writes self (h, world i)
               = ws @ [GaugeSet (gauge_name (host_read_errors self)) [host_label h] 1]"
      by (simp add: host_writes_def t)
    show ?thesis
      using True by (simp add: t handler_write [OF init] Cons.IH w)
  next
    case False
    then obtain ws where t: "try_host self h (world i) = (ws, None)"
      by (cases "try_host self h (world i)") (auto simp: host_failed_def)
    have w: "host_writes self (h, world i) = ws"
      by (simp add: host_writes_def t)
    show ?thesis
      using False by (simp add: t Cons.IH w)
  qed
qed

lemma fetch_eq:
  assumes init: "X509Metrics cfg env = Inr (self, ws0)"
  shows "fetch self world =
           (concat (map (host_writes self) (cycle_items world 0 (hosts cfg)))
              @ [GaugeSet (gauge_name (read_errors self)) []
                   (int (length (filter (host_failed self) (cycle_items world 0 (hosts cfg)))))],
            None)"
  by (simp add: fetch_def fetch_loop_eq [OF init] X509Metrics_Inr [OF init])



lemma map_fst_cycle_items: "map fst (cycle_items world i hs) = hs"
  by (induction hs arbitrary: i) auto

subsection \<open>When the label set is accepted\<close>

lemma distinct_init_labels: "distinct init_labels"
  by (simp add: init_labels_def)

lemma add_custom_labels_map_of:
  "map_of d k = Some v \<Longrightarrow> map_of (add_custom_labels d ls) k = Some v"
  by (induction ls arbitrary: d) (auto simp: map_add_def)

lemma add_custom_labels_distinct:
  "distinct (map fst d) \<Longrightarrow> distinct (map fst (add_custom_labels d ls))"
  by (induction ls arbitrary: d) auto

lemma add_custom_labels_disjoint:
  "distinct (map label_name ls) \<Longrightarrow> set (map label_name ls) \<inter> set (map fst d) = {} \<Longrightarrow>
   add_custom_labels d ls = d @ label_alist ls"
proof (induction ls arbitrary: d)
  case Nil
  then show ?case by (simp add: label_alist_def)
next
  case (Cons l ls)
  from Cons.prems have fresh: "label_name l \<notin> set (map fst d)" by auto
  have "add_custom_labels (d @ [(label_name l, label_value l)]) ls
          = (d @ [(label_name l, label_value l)]) @ label_alist ls"
    using Cons.prems by (intro Cons.IH) auto
  with fresh show ?case by (simp add: label_alist_def)
qed

lemma fetch_labels_host:
  "map_of (fetch_labels cfg h c) ''host'' = Some (PStr (host_label h))"
  unfolding fetch_labels_def Let_def
  by (rule add_custom_labels_map_of) simp

lemma fetch_labels_distinct: "distinct (map fst (fetch_labels cfg h c))"
  unfolding fetch_labels_def Let_def
  by (rule add_custom_labels_distinct) simp

lemma fetch_labels_keys:
  assumes "distinct (init_labels @ map label_name (labels cfg))"
  shows "map fst (fetch_labels cfg h c) = init_labels @ map label_name (labels cfg)"
proof -
  let ?d = "[(''host'', PStr (host_label h)),
            (''issuer_C'', get_oid_attribute (cert_issuer c) COUNTRY_NAME),
            (''issuer_L'', get_oid_attribute (cert_issuer c) LOCALITY_NAME),
            (''issuer_O'', get_oid_attribute (cert_issuer c) ORGANIZATION_NAME),
            (''issuer_OU'', get_oid_attribute (cert_issuer c) ORGANIZATIONAL_UNIT_NAME),
            (''issuer_ST'', get_oid_attribute (cert_issuer c) STATE_OR_PROVINCE_NAME),
            (''issuer_CN'', get_oid_attribute (cert_issuer c) COMMON_NAME),
            (''serial_number'', PInt (cert_serial_number c)),
            (''subject_C'', get_oid_attribute (cert_subject c) COUNTRY_NAME),
            (''subject_L'', get_oid_attribute (cert_subject c) LOCALITY_NAME),
            (''subject_O'', get_oid_attribute (cert_subject c) ORGANIZATION_NAME),
            (''subject_OU'', get_oid_attribute (cert_subject c) ORGANIZATIONAL_UNIT_NAME),
            (''subject_CN'', get_oid_attribute (cert_subject c) COMMON_NAME),
            (''subject_ST'', get_oid_attribute (cert_subject c) STATE_OR_PROVINCE_NAME)]"
  have keys: "map fst ?d = init_labels" by (simp add: init_labels_def)
  have d: "distinct (map label_name (labels cfg))"
    and i: "set (map label_name (labels cfg)) \<inter> set (map fst ?d) = {}"
    using assms unfolding keys by auto
  have "fetch_labels cfg h c = ?d @ label_alist (labels cfg)"
    unfolding fetch_labels_def Let_def by (rule add_custom_labels_disjoint [OF d i])
  then have "map fst (fetch_labels cfg h c) = map fst ?d @ map fst (label_alist (labels cfg))"
    by simp
  also have "map fst (label_alist (labels cfg)) = map label_name (labels cfg)"
    by (simp add: label_alist_def comp_def)
  finally show ?thesis unfolding keys .
qed

lemma schema_ok_iff:
  assumes init: "X509Metrics cfg env = Inr (self, ws0)"
  shows "(\<exists>key. gauge_labels (not_valid_after self) (fetch_labels cfg h c) = Inr key)
         \<longleftrightarrow> distinct (init_labels @ map label_name (labels cfg))"
proof
  let ?names = "init_labels @ map label_name (labels cfg)"
  have names: "labelnames (not_valid_after self) = ?names"
    by (simp add: X509Metrics_Inr [OF init] Gauge_def)
  {
    assume "\<exists>key. gauge_labels (not_valid_after self) (fetch_labels cfg h c) = Inr key"
    then have "sort (map fst (fetch_labels cfg h c)) = sort ?names"
      by (auto simp: gauge_labels_def names split: if_splits)
    then have "mset (sort (map fst (fetch_labels cfg h c))) = mset (sort ?names)" by simp
    then have "mset (map fst (fetch_labels cfg h c)) = mset ?names" by simp
    from mset_eq_imp_distinct_iff [OF this] fetch_labels_distinct [of cfg h c]
    show "distinct ?names" by simp
  }
  {
    assume d: "distinct ?names"
    have ne: "labelnames (not_valid_after self) \<noteq> []"
      by (simp add: names init_labels_def)
    have "gauge_labels (not_valid_after self) (fetch_labels cfg h c)
            = Inr (map py_str (map snd (fetch_labels cfg h c)))"
      by (rule gauge_labels_same_keys [OF ne]) (simp_all add: names fetch_labels_keys [OF d] d del: distinct_append)
    then show "\<exists>key. gauge_labels (not_valid_after self) (fetch_labels cfg h c) = Inr key"
      by blast
  }
qed

lemma host_failed_iff:
  assumes init: "X509Metrics cfg env = Inr (self, ws0)"
  shows "host_failed self (h, ob) \<longleftrightarrow>
           (\<exists>e. outcome ob = Inl e) \<or> \<not> distinct (init_labels @ map label_name (labels cfg))"
proof (cases "outcome ob")
  case (Inl e)
  then show ?thesis by (simp add: host_failed_def try_host_cases [OF init])
next
  case (Inr c)
  have "host_failed self (h, ob)
          \<longleftrightarrow> \<not> (\<exists>key. gauge_labels (not_valid_after self) (fetch_labels cfg h c) = Inr key)"
    using Inr by (auto simp: host_failed_def try_host_cases [OF init] split: sum.splits)
  with Inr show ?thesis by (simp add: schema_ok_iff [OF init])
qed

text \<open>
  When the custom label names are pairwise distinct and differ from the fourteen fixed
  names, the iterations that fail are those whose fetch raised.
\<close>

lemma failed_iterations_are_fetch_failures:
  assumes init: "X509Metrics cfg env = Inr (self, ws0)"
    and ok: "distinct (init_labels @ map label_name (labels cfg))"
  shows "filter (host_failed self) items = filter (\<lambda>item. isl (outcome (snd item))) items"
proof (rule filter_cong [OF refl])
  fix item assume "item \<in> set items"
  obtain h ob where item: "item = (h, ob)" by (cases item)
  show "host_failed self item = isl (outcome (snd item))"
    unfolding item using ok
    by (cases "outcome ob") (simp_all add: host_failed_iff [OF init] del: distinct_append)
qed

lemma certificate_key_head:
  assumes init: "X509Metrics cfg env = Inr (self, ws0)"
    and "gauge_labels (not_valid_after self) (fetch_labels cfg h c) = Inr key"
  shows "\<exists>rest. key = host_label h # rest"
proof -
  have names: "labelnames (not_valid_after self) = ''host'' # tl init_labels @ map label_name (labels cfg)"
    by (simp add: X509Metrics_Inr [OF init] Gauge_def init_labels_def)
  from assms(2) obtain vs where
    "those (map (map_of (fetch_labels cfg h c)) (labelnames (not_valid_after self))) = Some vs"
    and key: "key = map py_str vs"
    by (auto simp: gauge_labels_def split: if_splits option.splits)
  then obtain vs' where "vs = PStr (host_label h) # vs'"
    by (auto simp: names fetch_labels_host split: option.splits)
  with key show ?thesis by simp
qed

subsection \<open>Replaying writes on the store\<close>

lemma run_sink_Cons: "run_sink s (w # ws) = run_sink (apply_op s w) ws"
  by (simp add: run_sink_def)

lemma run_sink_append: "run_sink s (ws @ ws') = run_sink (run_sink s ws) ws'"
  by (simp add: run_sink_def)

lemma apply_op_other:
  "\<not> (op_gauge w = g \<and> op_key w = k) \<Longrightarrow> apply_op s w g k = s g k"
  by (cases w) auto

lemma apply_op_same:
  "op_gauge w = g \<Longrightarrow> op_key w = k \<Longrightarrow> apply_op s w g k = Some (op_value w)"
  by (cases w) auto

lemma run_sink_untouched:
  "\<forall>w\<in>set ws. \<not> (op_gauge w = g \<and> op_key w = k) \<Longrightarrow> run_sink s ws g k = s g k"
  by (induction ws arbitrary: s) (simp_all add: run_sink_def apply_op_other)

lemma run_sink_all_same:
  assumes "\<forall>w\<in>set ws. op_gauge w = g \<and> op_key w = k \<longrightarrow> op_value w = v"
    and "\<exists>w\<in>set ws. op_gauge w = g \<and> op_key w = k"
  shows "run_sink s ws g k = Some v"
  using assms
proof (induction ws arbitrary: s)
  case Nil
  then show ?case by simp
next
  case (Cons w ws)
  show ?case
  proof (cases "\<exists>w'\<in>set ws. op_gauge w' = g \<and> op_key w' = k")
    case True
    with Cons.prems Cons.IH [of "apply_op s w"] show ?thesis
      by (simp add: run_sink_Cons)
  next
    case False
    with Cons.prems have hit: "op_gauge w = g" "op_key w = k" "op_value w = v" by auto
    from False have "run_sink (apply_op s w) ws g k = apply_op s w g k"
      by (intro run_sink_untouched) blast
    with hit show ?thesis by (simp add: run_sink_Cons apply_op_same)
  qed
qed

lemma gauge_names:
  assumes init: "X509Metrics cfg env = Inr (self, ws0)"
  shows "gauge_name (not_valid_after self) = ''x509_cert_not_after''"
    and "gauge_name (not_valid_before self) = ''x509_cert_not_before''"
    and "gauge_name (expired self) = ''x509_expired''"
    and "gauge_name (host_read_errors self) = ''x509_host_read_errors''"
    and "gauge_name (read_errors self) = ''x509_read_errors''"
  by (simp_all add: X509Metrics_Inr [OF init] Gauge_def)

lemma host_writes_shape:
  assumes init: "X509Metrics cfg env = Inr (self, ws0)"
    and "w \<in> set (host_writes self item)"
  shows "(op_gauge w = ''x509_host_read_errors'' \<and> op_key w = [host_label (fst item)]
            \<and> op_value w = (if host_failed self item then 1 else 0))
       \<or> (op_gauge w \<in> {''x509_cert_not_after'', ''x509_cert_not_before'', ''x509_expired''}
            \<and> \<not> host_failed self item \<and> (\<exists>rest. op_key w = host_label (fst item) # rest))"
proof (cases "host_failed self item")
  case True
  from host_failed_writes [OF init True] assms(2) True show ?thesis
    by (simp add: gauge_names [OF init])
next
  case False
  from host_succeeded_writes [OF init False] obtain c key where
    k: "gauge_labels (not_valid_after self) (fetch_labels cfg (fst item) c) = Inr key"
    and w: "host_writes self item = certificate_writes self (fst item) c (clock (snd item)) key"
    by blast
  from certificate_key_head [OF init k] obtain rest where "key = host_label (fst item) # rest" ..
  with assms(2) False show ?thesis
    unfolding w certificate_writes_def gauge_names [OF init] by auto
qed


subsection \<open>The example cycle\<close>

lemma example_init:
  "X509Metrics example_config []
     = Inr (example_metrics,
            [GaugeSet ''x509_build_info'' [''1.0.0-snapshot'', ''unknown'', ''unknown'', ''unknown''] 1])"
  by (simp add: X509Metrics_def example_config_def example_metrics_def build_info_write
      dict_get_def environ_dict_def Let_def)

lemma example_schema_ok: "distinct (init_labels @ map label_name (labels example_config))"
  by (simp add: init_labels_def example_config_def)

lemma example_failed:
  "host_failed example_metrics (h, example_world i) \<longleftrightarrow> i = 1"
  by (simp add: host_failed_iff [OF example_init] example_schema_ok example_world_def
       del: distinct_append)

lemma example_items:
  "cycle_items example_world 0 (hosts example_config)
     = [(\<lparr>host_name = PStr ''a.example'', host_port = PInt 443\<rparr>, example_world 0),
        (\<lparr>host_name = PStr ''b.example'', host_port = PStr ''443''\<rparr>, example_world 1),
        (\<lparr>host_name = PStr ''c.example'', host_port = PStr ''8443''\<rparr>, example_world 2)]"
  by (simp add: example_config_def numeral_2_eq_2)

lemma str_int_443: "str_int 443 = ''443''"
  by (simp add: str_int_def digit_chars_def)

lemma example_host_labels:
  "host_label \<lparr>host_name = PStr ''a.example'', host_port = PInt 443\<rparr> = ''a.example:443''"
  "host_label \<lparr>host_name = PStr ''b.example'', host_port = PStr ''443''\<rparr> = ''b.example:443''"
  "host_label \<lparr>host_name = PStr ''c.example'', host_port = PStr ''8443''\<rparr> = ''c.example:8443''"
  by (simp_all add: host_label_def str_int_443)

section \<open>Properties of the collection cycle\<close>



text \<open>
  Claim C2. For every host list, the writes of a cycle are the per-host writes, none of
  which touches the aggregate gauge, followed by one write of the aggregate gauge with the
  number of iterations that failed in the cycle; after the cycle the store holds that
  number for the aggregate gauge. With three hosts and one failure it holds 1.
\<close>

theorem read_errors_counts_failures:
  assumes init: "X509Metrics cfg env = Inr (self, ws0)"
  shows "\<exists>pre. fst (fetch self world)
             = pre @ [GaugeSet (gauge_name (read_errors self)) []
                        (int (length (filter (host_failed self)
                                        (cycle_items world 0 (hosts cfg)))))]
      \<and> (\<forall>w\<in>set pre. op_gauge w \<noteq> gauge_name (read_errors self))
      \<and> snd (fetch self world) = None
      \<and> run_sink s (fst (fetch self world)) (gauge_name (read_errors self)) []
          = Some (int (length (filter (host_failed self) (cycle_items world 0 (hosts cfg)))))"
proof -
  let ?items = "cycle_items world 0 (hosts cfg)"
  let ?pre = "concat (map (host_writes self) ?items)"
  let ?n = "int (length (filter (host_failed self) ?items))"
  have eq: "fetch self world = (?pre @ [GaugeSet (gauge_name (read_errors self)) [] ?n], None)"
    by (rule fetch_eq [OF init])
  have pre: "\<forall>w\<in>set ?pre. op_gauge w \<noteq> gauge_name (read_errors self)"
  proof
    fix w assume "w \<in> set ?pre"
    then obtain item where "w \<in> set (host_writes self item)" by auto
    from host_writes_shape [OF init this] show "op_gauge w \<noteq> gauge_name (read_errors self)"
      unfolding gauge_names [OF init] by auto
  qed
  have "run_sink s (?pre @ [GaugeSet (gauge_name (read_errors self)) [] ?n])
          (gauge_name (read_errors self)) [] = Some ?n"
    by (simp add: run_sink_append run_sink_Cons) (simp add: run_sink_def)
  with eq pre show ?thesis by simp
qed

theorem read_errors_counts_failures_witness:
  "length (hosts example_config) = 3
   \<and> length (filter (host_failed example_metrics)
               (cycle_items example_world 0 (hosts example_config))) = 1
   \<and> run_sink (\<lambda>g key. None) (fst (fetch example_metrics example_world)) ''x509_read_errors'' []
       = Some 1"
proof -
  have n: "length (filter (host_failed example_metrics)
               (cycle_items example_world 0 (hosts example_config))) = 1"
    by (simp add: example_items example_failed)
  from read_errors_counts_failures [OF example_init, of example_world "\<lambda>g key. None"]
  have "run_sink (\<lambda>g key. None) (fst (fetch example_metrics example_world))
          ''x509_read_errors'' [] = Some 1"
    unfolding n gauge_names [OF example_init] by auto
  with n show ?thesis by (simp add: example_config_def)
qed



text \<open>
  Claim C4. An iteration that fails, for whatever exception, writes the host's error flag
  with 1 and nothing else. So for a host label all of whose iterations in the cycle fail,
  the store holds 1 for the flag after the cycle, no write of the cycle addresses a series
  of the three certificate gauges whose host label is that one, and every such series has
  after the cycle the value it had before.
\<close>

theorem failed_host_frame:
  assumes init: "X509Metrics cfg env = Inr (self, ws0)"
    and all_failed: "\<forall>item\<in>set (cycle_items world 0 (hosts cfg)).
                       host_label (fst item) = L \<longrightarrow> host_failed self item"
    and polled: "\<exists>item\<in>set (cycle_items world 0 (hosts cfg)). host_label (fst item) = L"
  shows "run_sink s (fst (fetch self world)) (gauge_name (host_read_errors self)) [L] = Some 1
    \<and> (\<forall>w\<in>set (fst (fetch self world)).
          op_gauge w \<in> {gauge_name (not_valid_after self), gauge_name (not_valid_before self),
                        gauge_name (expired self)} \<longrightarrow> (\<forall>rest. op_key w \<noteq> L # rest))
    \<and> (\<forall>g rest. g \<in> {gauge_name (not_valid_after self), gauge_name (not_valid_before self),
                        gauge_name (expired self)} \<longrightarrow>
          run_sink s (fst (fetch self world)) g (L # rest) = s g (L # rest))
    \<and> (\<forall>item\<in>set (cycle_items world 0 (hosts cfg)). host_failed self item \<longrightarrow>
          host_writes self item
            = [GaugeSet (gauge_name (host_read_errors self)) [host_label (fst item)] 1])"
proof -
  let ?items = "cycle_items world 0 (hosts cfg)"
  let ?pre = "concat (map (host_writes self) ?items)"
  let ?n = "int (length (filter (host_failed self) ?items))"
  let ?trace = "fst (fetch self world)"
  note gn = gauge_names [OF init]
  have eq: "?trace = ?pre @ [GaugeSet ''x509_read_errors'' [] ?n]"
    by (simp add: fetch_eq [OF init] gn)
  have shape: "(op_gauge w = ''x509_read_errors'' \<and> op_key w = [])
       \<or> (\<exists>item\<in>set ?items.
            (op_gauge w = ''x509_host_read_errors'' \<and> op_key w = [host_label (fst item)]
               \<and> op_value w = (if host_failed self item then 1 else 0))
          \<or> (op_gauge w \<in> {''x509_cert_not_after'', ''x509_cert_not_before'', ''x509_expired''}
               \<and> \<not> host_failed self item \<and> (\<exists>rest. op_key w = host_label (fst item) # rest)))"
    if "w \<in> set ?trace" for w
  proof (cases "w \<in> set ?pre")
    case True
    then obtain item where "item \<in> set ?items" "w \<in> set (host_writes self item)" by auto
    with host_writes_shape [OF init this(2)] show ?thesis by blast
  next
    case False
    with that eq have "w = GaugeSet ''x509_read_errors'' [] ?n" by simp
    then show ?thesis by simp
  qed
  have flag_vals: "\<forall>w\<in>set ?trace. op_gauge w = ''x509_host_read_errors'' \<and> op_key w = [L]
                     \<longrightarrow> op_value w = 1"
  proof (intro ballI impI)
    fix w assume w: "w \<in> set ?trace" and t: "op_gauge w = ''x509_host_read_errors'' \<and> op_key w = [L]"
    from shape [OF w] t obtain item where "item \<in> set ?items" "host_label (fst item) = L"
      "op_value w = (if host_failed self item then 1 else 0)"
      by auto
    with all_failed show "op_value w = 1" by simp
  qed
  have flag_hit: "\<exists>w\<in>set ?trace. op_gauge w = ''x509_host_read_errors'' \<and> op_key w = [L]"
  proof -
    from polled obtain item where i: "item \<in> set ?items" "host_label (fst item) = L" by blast
    with all_failed have "host_failed self item" by blast
    from host_failed_writes [OF init this] i
    have "GaugeSet ''x509_host_read_errors'' [L] 1 \<in> set (host_writes self item)"
      by (simp add: gn)
    with i(1) have "GaugeSet ''x509_host_read_errors'' [L] 1 \<in> set ?trace"
      unfolding eq by auto
    then show ?thesis by force
  qed
  have flag: "run_sink s ?trace ''x509_host_read_errors'' [L] = Some 1"
    by (rule run_sink_all_same [OF flag_vals flag_hit])
  have nowrite: "\<forall>w\<in>set ?trace.
          op_gauge w \<in> {''x509_cert_not_after'', ''x509_cert_not_before'', ''x509_expired''}
             \<longrightarrow> (\<forall>rest. op_key w \<noteq> L # rest)"
  proof (intro ballI impI allI)
    fix w rest
    assume w: "w \<in> set ?trace"
      and g: "op_gauge w \<in> {''x509_cert_not_after'', ''x509_cert_not_before'', ''x509_expired''}"
    from shape [OF w] g obtain item r where "item \<in> set ?items" "\<not> host_failed self item"
      "op_key w = host_label (fst item) # r"
      by auto
    with all_failed show "op_key w \<noteq> L # rest" by auto
  qed
  have frame: "run_sink s ?trace g (L # rest) = s g (L # rest)"
    if "g \<in> {''x509_cert_not_after'', ''x509_cert_not_before'', ''x509_expired''}" for g rest
    using nowrite that by (intro run_sink_untouched) blast
  have iter: "\<forall>item\<in>set ?items. host_failed self item \<longrightarrow>
          host_writes self item
            = [GaugeSet (gauge_name (host_read_errors self)) [host_label (fst item)] 1]"
    using host_failed_writes [OF init] by blast
  from flag nowrite frame iter show ?thesis
    unfolding gn by blast
qed

theorem failed_host_frame_witness:
  "run_sink (\<lambda>g key. Some 7) (fst (fetch example_metrics example_world))
       ''x509_host_read_errors'' [''b.example:443''] = Some 1
   \<and> run_sink (\<lambda>g key. Some 7) (fst (fetch example_metrics example_world))
       ''x509_expired'' [''b.example:443'', ''rest''] = Some 7
   \<and> run_sink (\<lambda>g key. Some 7) (fst (fetch example_metrics example_world))
       ''x509_cert_not_after'' [''b.example:443'', ''rest''] = Some 7"
proof -
  have all_failed: "\<forall>item\<in>set (cycle_items example_world 0 (hosts example_config)).
                       host_label (fst item) = ''b.example:443'' \<longrightarrow> host_failed example_metrics item"
    by (simp add: example_items example_failed example_host_labels)
  have polled: "\<exists>item\<in>set (cycle_items example_world 0 (hosts example_config)).
                  host_label (fst item) = ''b.example:443''"
    by (simp add: example_items example_host_labels)
  from failed_host_frame [OF example_init all_failed polled, of "\<lambda>g key. Some 7"]
  show ?thesis
    by (simp add: gauge_names [OF example_init])
qed

text \<open>
  Claim C5, as stated, fails: the schema of the certificate gauges holds
  \<^verbatim>\<open>serial_number\<close>, which is neither \<^verbatim>\<open>host\<close>, nor one of the twelve issuer and
  subject fields, nor a custom label of the configuration.
\<close>

theorem label_schema_counterexample:
  "X509Metrics example_config []
     = Inr (example_metrics,
            [GaugeSet ''x509_build_info'' [''1.0.0-snapshot'', ''unknown'', ''unknown'', ''unknown''] 1])
   \<and> ''serial_number'' \<in> set (labelnames (not_valid_after example_metrics))
   \<and> ''serial_number'' \<notin> set (''host'' # dn_fields @ map label_name (labels example_config))"
  using example_init
  by (simp add: example_config_def example_metrics_def Gauge_def init_labels_def dn_fields_def)

text \<open>
  Claim C5, amended. The schema of the three certificate gauges, fixed by the constructor,
  is the literal list of fourteen names followed by the names of the resolved custom
  labels: it consists exactly of \<^verbatim>\<open>host\<close>, \<^verbatim>\<open>serial_number\<close>, the twelve issuer and
  subject fields and the custom-label names.
\<close>

theorem label_schema:
  assumes init: "X509Metrics cfg env = Inr (self, ws0)"
  shows "labelnames (not_valid_after self) = init_labels @ map label_name (labels cfg)
    \<and> labelnames (not_valid_before self) = labelnames (not_valid_after self)
    \<and> labelnames (expired self) = labelnames (not_valid_after self)
    \<and> set (labelnames (not_valid_after self))
        = {''host'', ''serial_number''} \<union> set dn_fields \<union> label_name ` set (labels cfg)"
  by (auto simp: X509Metrics_Inr [OF init] Gauge_def init_labels_def dn_fields_def)

theorem label_schema_witness:
  "set (labelnames (not_valid_after example_metrics))
     = {''host'', ''serial_number''} \<union> set dn_fields \<union> {''env''}
   \<and> labelnames (expired example_metrics) = init_labels @ [''env'']"
  using label_schema [OF example_init]
  by (auto simp: example_config_def init_labels_def dn_fields_def)

end
